theory Spec2Isabelle
  imports Main
begin

section \<open>Errors\<close>

text \<open>
  The failure kinds of the client (the taxonomy of the error-handling design) and the
  structured error value that carries them. The package \<open>internal/errors\<close> is not among
  the sources at hand; only its use in \<open>adb.go\<close> is.
\<close>

datatype ErrCode =
  ConnectionRefused | ServerUnavailable | ProtocolError | AdbError | ParseError
  | IOError | Timeout

text \<open>
  Go's \<open>strconv.NumError\<close>: the function that failed, the text it was given, and whether
  the text was ill-formed or its value out of range.
\<close>

datatype NumErr = ErrSyntax | ErrRange

datatype NumError = NumError (Func: string) (Num: string) (Why: NumErr)

datatype 'e cause = NoCause | Foreign NumError | Wrapped 'e

text \<open>
  Modelled from the spec: the error type of \<open>internal/errors\<close>, "a structured error type
  carrying operation name, kind, underlying cause", with the message (for \<open>AdbError\<close> the
  server's text verbatim) and the context that \<open>ReadStatus\<close> attaches.
\<close>

datatype error =
  Err (Code: ErrCode) (Operation: "string option") (Context: "string option")
      (Message: string) (Cause: "error cause")

text \<open>
  Modelled from the spec: \<open>wrapClientError\<close>, missing from the sources at hand. It
  annotates an error with the name of the operation; the kind and the message stay those
  of the underlying error, which becomes the cause.
\<close>

definition wrapClientError :: "error \<Rightarrow> string \<Rightarrow> error" where
  "wrapClientError err operation =
     Err (Code err) (Some operation) (Context err) (Message err) (Wrapped err)"

text \<open>
  Modelled from the spec: \<open>errors.WrapErrorf\<close>, missing from the sources at hand, builds
  an error of the given kind with the formatted message around a cause.
\<close>

definition WrapErrorf :: "NumError \<Rightarrow> ErrCode \<Rightarrow> string \<Rightarrow> error" where
  "WrapErrorf cause code msg = Err code None None msg (Foreign cause)"

section \<open>Connections\<close>

text \<open>
  What happens on a socket, oldest first: bytes written, bytes read, the release.
\<close>

datatype event = Wrote string | Got string | Closed

text \<open>
  A connection owns one socket. \<open>input\<close> is what the peer delivers and the client has not
  read yet, \<open>wcap\<close> the number of bytes the transport still accepts before a write
  fails; \<open>log\<close> records the traffic and \<open>closed\<close> whether the socket was released.
\<close>

record conn =
  input :: string
  wcap :: nat
  log :: "event list"
  closed :: bool

text \<open>
  The peer of a dial: the bytes it will answer with and the bytes it will accept.
\<close>

record peer =
  replies :: string
  accepts :: nat

text \<open>
  The server handle knows the server's address; \<open>listening\<close> is what is reachable there
  (\<open>None\<close>: nothing accepts the connection).
\<close>

record server =
  listening :: "peer option"

text \<open>
  Modelled from the spec: \<open>server.Dial\<close>, missing from the sources at hand. It opens a
  new connection, or fails with a \<open>ConnectionRefused\<close> error when the socket cannot be
  established; it neither retries nor starts the server.
\<close>

definition Dial :: "server \<Rightarrow> error + conn" where
  "Dial s =
     (case listening s of
        None \<Rightarrow> Inl (Err ConnectionRefused None None ''connection refused'' NoCause)
      | Some p \<Rightarrow> Inr \<lparr>input = replies p, wcap = accepts p, log = [], closed = False\<rparr>)"

text \<open>Writing to the socket: a short write is an \<open>IOError\<close>.\<close>

definition writeAll :: "conn \<Rightarrow> string \<Rightarrow> conn \<times> error option" where
  "writeAll c bs =
     (if length bs \<le> wcap c
      then (c\<lparr>wcap := wcap c - length bs, log := log c @ [Wrote bs]\<rparr>, None)
      else (c\<lparr>wcap := 0, log := log c @ [Wrote (take (wcap c) bs)]\<rparr>,
            Some (Err IOError None None ''short write'' NoCause)))"

text \<open>Reading exactly \<open>n\<close> bytes: a short read is an \<open>IOError\<close>.\<close>

definition readFull :: "conn \<Rightarrow> nat \<Rightarrow> conn \<times> (error + string)" where
  "readFull c n =
     (if n \<le> length (input c)
      then (c\<lparr>input := drop n (input c), log := log c @ [Got (take n (input c))]\<rparr>,
            Inr (take n (input c)))
      else (c\<lparr>input := [], log := log c @ [Got (input c)]\<rparr>,
            Inl (Err IOError None None ''short read'' NoCause)))"

definition hexChar :: "nat \<Rightarrow> char" where
  "hexChar d = ''0123456789abcdef'' ! d"

text \<open>The length header of a frame: four lower-case hexadecimal digits.\<close>

definition lengthHeader :: "nat \<Rightarrow> string" where
  "lengthHeader n =
     [hexChar (n div 4096 mod 16), hexChar (n div 256 mod 16),
      hexChar (n div 16 mod 16), hexChar (n mod 16)]"

text \<open>
  Modelled from the spec: \<open>Conn.SendMessage\<close>, missing from the sources at hand. It
  writes the length header of the message and then its bytes, and fails with \<open>IOError\<close>
  on a short write or a transport failure. A frame holds at most 0xFFFF bytes; a longer
  message is not supported and is refused before anything is written.
\<close>

definition SendMessage :: "conn \<Rightarrow> string \<Rightarrow> conn \<times> error option" where
  "SendMessage c msg =
     (if 65535 < length msg
      then (c, Some (Err IOError None None ''message too long'' NoCause))
      else writeAll c (lengthHeader (length msg) @ msg))"

text \<open>
  Modelled from the spec: \<open>wire.SendMessageString\<close>, "convenience equal to
  \<open>SendMessage\<close>" on the bytes of the text.
\<close>

definition SendMessageString :: "conn \<Rightarrow> string \<Rightarrow> conn \<times> error option" where
  "SendMessageString c msg = SendMessage c msg"

definition hexDigitVal :: "char \<Rightarrow> nat option" where
  "hexDigitVal c =
     (let k = of_char c :: nat in
      if 48 \<le> k \<and> k \<le> 57 then Some (k - 48)
      else if 97 \<le> k \<and> k \<le> 102 then Some (k - 87)
      else if 65 \<le> k \<and> k \<le> 70 then Some (k - 55)
      else None)"

text \<open>
  The value of a text of hexadecimal digits, read case-insensitively and continuing from
  \<open>n\<close>; \<open>None\<close> when a character is not a hexadecimal digit. It reads the length
  header of a frame, and it says what a hexadecimal numeral denotes.
\<close>

fun hexValue :: "nat \<Rightarrow> string \<Rightarrow> nat option" where
  "hexValue n [] = Some n"
| "hexValue n (c # cs) =
     (case hexDigitVal c of None \<Rightarrow> None | Some d \<Rightarrow> hexValue (16 * n + d) cs)"

text \<open>
  Modelled from the spec: \<open>Conn.ReadMessage\<close>, missing from the sources at hand. It
  reads a header of four hexadecimal digits and then exactly that many bytes;
  \<open>ProtocolError\<close> when the header is not hexadecimal, \<open>IOError\<close> on a short read.
\<close>

definition ReadMessage :: "conn \<Rightarrow> conn \<times> (error + string)" where
  "ReadMessage c =
     (case readFull c 4 of
        (c1, Inl err) \<Rightarrow> (c1, Inl err)
      | (c1, Inr hdr) \<Rightarrow>
          (case hexValue 0 hdr of
             None \<Rightarrow> (c1, Inl (Err ProtocolError None None ''invalid length header'' NoCause))
           | Some n \<Rightarrow> readFull c1 n))"

text \<open>
  Modelled from the spec: \<open>Conn.ReadStatus\<close>, missing from the sources at hand. It
  reads exactly four bytes: \<open>OKAY\<close> is success; after \<open>FAIL\<close> the frame that follows is
  the server's message and the call fails with an \<open>AdbError\<close> of the context and that
  message; any other tag is a \<open>ProtocolError\<close>.
\<close>

definition ReadStatus :: "conn \<Rightarrow> string \<Rightarrow> conn \<times> (error + string)" where
  "ReadStatus c req =
     (case readFull c 4 of
        (c1, Inl err) \<Rightarrow> (c1, Inl err)
      | (c1, Inr status) \<Rightarrow>
          if status = ''OKAY'' then (c1, Inr status)
          else if status = ''FAIL'' then
            (case ReadMessage c1 of
               (c2, Inl err) \<Rightarrow> (c2, Inl err)
             | (c2, Inr msg) \<Rightarrow> (c2, Inl (Err AdbError None (Some req) msg NoCause)))
          else (c1, Inl (Err ProtocolError None (Some req) ''unexpected status'' NoCause)))"

text \<open>Modelled from the spec: \<open>Conn.Close\<close> releases the socket.\<close>

definition Close :: "conn \<Rightarrow> conn" where
  "Close c = c\<lparr>log := log c @ [Closed], closed := True\<rparr>"

text \<open>
  Modelled from the spec: \<open>roundTripSingleResponse\<close>, missing from the sources at hand.
  It dials, sends the one command, reads the one status and the one payload, and closes
  the connection on every return. The result is the payload or the error, with the
  connection as the call left it (\<open>None\<close> when the dial failed).
\<close>

definition roundTripSingleResponse ::
  "server \<Rightarrow> string \<Rightarrow> conn option \<times> (error + string)" where
  "roundTripSingleResponse s req =
     (case Dial s of
        Inl err \<Rightarrow> (None, Inl err)
      | Inr conn \<Rightarrow>
          (case SendMessageString conn req of
             (c1, Some err) \<Rightarrow> (Some (Close c1), Inl err)
           | (c1, None) \<Rightarrow>
               (case ReadStatus c1 req of
                  (c2, Inl err) \<Rightarrow> (Some (Close c2), Inl err)
                | (c2, Inr _) \<Rightarrow>
                    (case ReadMessage c2 of
                       (c3, Inl err) \<Rightarrow> (Some (Close c3), Inl err)
                     | (c3, Inr resp) \<Rightarrow> (Some (Close c3), Inr resp)))))"

section \<open>The client\<close>

text \<open>
  Each operation returns what the Go function returns (\<open>None\<close> for a nil error) and
  the connection it dialled, as the call left it.
\<close>

definition KillServer :: "server \<Rightarrow> error option \<times> conn option" where
  "KillServer s =
     (case Dial s of
        Inl err \<Rightarrow> (Some (wrapClientError err ''KillServer''), None)
      | Inr conn \<Rightarrow>
          (case SendMessageString conn ''host:kill'' of
             (c1, Some err) \<Rightarrow> (Some (wrapClientError err ''KillServer''), Some (Close c1))
           | (c1, None) \<Rightarrow> (None, Some (Close c1))))"


section \<open>Formatting and parsing numbers\<close>

text \<open>
  \<open>fmt.Sprintf\<close> with the verb \<open>%d\<close>: the decimal digits of the integer, after a minus
  sign when it is negative. Go's \<open>int\<close> has 64 bits; no operation computes with a port,
  so the model takes it as an integer.
\<close>

definition digitChar :: "nat \<Rightarrow> char" where
  "digitChar d = ''0123456789'' ! d"

fun natDigits :: "nat \<Rightarrow> string" where
  "natDigits n =
     (if n < 10 then [digitChar n] else natDigits (n div 10) @ [digitChar (n mod 10)])"

declare natDigits.simps [simp del]

definition formatInt :: "int \<Rightarrow> string" where
  "formatInt i = (if i < 0 then CHR ''-'' # natDigits (nat (- i)) else natDigits (nat i))"

text \<open>
  Go's \<open>strconv.ParseUint\<close>, for a base from 2 to 36 and a bit size from 1 to 64 (the
  client passes 16 and 32; base 0, with its prefixes and underscores, and the invalid
  arguments are not reached and are left out). \<open>lower\<close> is \<open>c | ('x' - 'X')\<close>; the
  accumulator is a \<open>uint64\<close>, so the multiplication and the addition wrap at \<open>2 ^ 64\<close>.
\<close>

definition lower :: "nat \<Rightarrow> nat" where
  "lower c = or c 32"

definition digitOf :: "char \<Rightarrow> nat option" where
  "digitOf ch =
     (let c = of_char ch :: nat in
      if 48 \<le> c \<and> c \<le> 57 then Some (c - 48)
      else if 97 \<le> lower c \<and> lower c \<le> 122 then Some (lower c - 97 + 10)
      else None)"

definition maxUint64 :: nat where
  "maxUint64 = 2 ^ 64 - 1"

fun parseDigits :: "nat \<Rightarrow> nat \<Rightarrow> nat \<Rightarrow> string \<Rightarrow> nat \<times> NumErr option" where
  "parseDigits base maxVal n [] = (n, None)"
| "parseDigits base maxVal n (c # cs) =
     (case digitOf c of
        None \<Rightarrow> (0, Some ErrSyntax)
      | Some d \<Rightarrow>
          if base \<le> d then (0, Some ErrSyntax)
          else if maxUint64 div base + 1 \<le> n then (maxVal, Some ErrRange)
          else
            (let n' = (n * base) mod 2 ^ 64;
                 n1 = (n' + d) mod 2 ^ 64
             in if n1 < n' \<or> maxVal < n1 then (maxVal, Some ErrRange)
                else parseDigits base maxVal n1 cs))"

definition ParseUint :: "string \<Rightarrow> nat \<Rightarrow> nat \<Rightarrow> nat \<times> NumError option" where
  "ParseUint s base bitSize =
     (if s = [] then (0, Some (NumError ''ParseUint'' s ErrSyntax))
      else
        (case parseDigits base (2 ^ bitSize - 1) 0 s of
           (n, Some why) \<Rightarrow> (n, Some (NumError ''ParseUint'' s why))
         | (n, None) \<Rightarrow> (n, None)))"

text \<open>The conversion \<open>int64(un)\<close> and the negation of an \<open>int64\<close>, both wrapping.\<close>

definition toInt64 :: "nat \<Rightarrow> int" where
  "toInt64 un = (let k = int un mod 2 ^ 64 in if k < 2 ^ 63 then k else k - 2 ^ 64)"

definition neg64 :: "int \<Rightarrow> int" where
  "neg64 n = toInt64 (nat ((- n) mod 2 ^ 64))"

text \<open>
  Go's \<open>strconv.ParseInt\<close>: an optional sign, then \<open>ParseUint\<close>; a syntax error is
  returned as it is, and the magnitude is then checked against the signed range of the
  bit size.
\<close>

definition ParseInt :: "string \<Rightarrow> nat \<Rightarrow> nat \<Rightarrow> int \<times> NumError option" where
  "ParseInt s0 base bitSize =
     (if s0 = [] then (0, Some (NumError ''ParseInt'' s0 ErrSyntax))
      else
        (let neg = (hd s0 = CHR ''-'');
             s = (if hd s0 = CHR ''+'' \<or> hd s0 = CHR ''-'' then tl s0 else s0);
             (un, err) = ParseUint s base bitSize;
             cutoff = (2::nat) ^ (bitSize - 1)
         in if err \<noteq> None \<and> map_option Why err \<noteq> Some ErrRange
            then (0, map_option (\<lambda>e. NumError ''ParseInt'' s0 (Why e)) err)
            else if \<not> neg \<and> cutoff \<le> un
            then (toInt64 (cutoff - 1), Some (NumError ''ParseInt'' s0 ErrRange))
            else if neg \<and> cutoff < un
            then (neg64 (toInt64 cutoff), Some (NumError ''ParseInt'' s0 ErrRange))
            else (if neg then neg64 (toInt64 un) else toInt64 un, None)))"

definition parseServerVersion :: "string \<Rightarrow> int \<times> error option" where
  "parseServerVersion versionRaw =
     (let versionStr = versionRaw in
      case ParseInt versionStr 16 32 of
        (version, Some err) \<Rightarrow>
          (0, Some (WrapErrorf err ParseError
                      (''error parsing server version: '' @ versionStr)))
      | (version, None) \<Rightarrow> (version, None))"

definition ServerVersion :: "server \<Rightarrow> (int \<times> error option) \<times> conn option" where
  "ServerVersion s =
     (case roundTripSingleResponse s ''host:version'' of
        (c, Inl err) \<Rightarrow> ((0, Some (wrapClientError err ''GetServerVersion'')), c)
      | (c, Inr resp) \<Rightarrow>
          (case parseServerVersion resp of
             (version, Some err) \<Rightarrow> ((0, Some (wrapClientError err ''GetServerVersion'')), c)
           | (version, None) \<Rightarrow> ((version, None), c)))"


section \<open>Device lists\<close>

datatype DeviceState = StateDevice | StateOffline | StateUnauthorized | StateUnknown

record DeviceInfo =
  Serial :: string
  State :: DeviceState
  Attrs :: "(string \<times> string) list"

definition newline :: char where
  "newline = CHR 0x0A"

definition isSpace :: "char \<Rightarrow> bool" where
  "isSpace c = (c \<in> set [CHR '' '', CHR 0x09, CHR 0x0A, CHR 0x0B, CHR 0x0C, CHR 0x0D])"

text \<open>Cutting a text at every character that satisfies \<open>P\<close>.\<close>

fun splitBy :: "(char \<Rightarrow> bool) \<Rightarrow> string \<Rightarrow> string list" where
  "splitBy P [] = [[]]"
| "splitBy P (c # cs) =
     (if P c then [] # splitBy P cs
      else (case splitBy P cs of [] \<Rightarrow> [[c]] | w # ws \<Rightarrow> (c # w) # ws))"

text \<open>
  Modelled from the spec: the lines of a device-list payload, "separated by newline;
  trailing empty lines ignored".
\<close>

definition payloadLines :: "string \<Rightarrow> string list" where
  "payloadLines list = rev (dropWhile (\<lambda>l. l = []) (rev (splitBy (\<lambda>c. c = newline) list)))"

text \<open>Modelled from the spec: the whitespace-delimited fields of a line.\<close>

definition Fields :: "string \<Rightarrow> string list" where
  "Fields line = filter (\<lambda>f. f \<noteq> []) (splitBy isSpace line)"

text \<open>
  Modelled from the spec: \<open>parseDeviceShort\<close>, missing from the sources at hand. A short
  line is the serial and the state; only the serial is retained. Any other line is
  malformed and fails with a \<open>ParseError\<close> that names the line.
\<close>

definition parseDeviceShort :: "string \<Rightarrow> error + DeviceInfo" where
  "parseDeviceShort line =
     (case Fields line of
        [serial, state] \<Rightarrow> Inr \<lparr>Serial = serial, State = StateUnknown, Attrs = []\<rparr>
      | _ \<Rightarrow> Inl (Err ParseError None None (''malformed device line: '' @ line) NoCause))"

text \<open>
  Modelled from the spec: \<open>parseDeviceList\<close>, missing from the sources at hand. Every
  line is parsed on its own; the first malformed line fails the whole call.
\<close>

fun parseLines ::
  "(string \<Rightarrow> error + DeviceInfo) \<Rightarrow> string list \<Rightarrow> error + DeviceInfo list" where
  "parseLines lineParseFunc [] = Inr []"
| "parseLines lineParseFunc (l # ls) =
     (case lineParseFunc l of
        Inl err \<Rightarrow> Inl err
      | Inr device \<Rightarrow>
          (case parseLines lineParseFunc ls of
             Inl err \<Rightarrow> Inl err
           | Inr devices \<Rightarrow> Inr (device # devices)))"

definition parseDeviceList ::
  "string \<Rightarrow> (string \<Rightarrow> error + DeviceInfo) \<Rightarrow> error + DeviceInfo list" where
  "parseDeviceList list lineParseFunc = parseLines lineParseFunc (payloadLines list)"

text \<open>
  The loop of \<open>ListDeviceSerials\<close>: \<open>serials[i] = dev.Serial\<close> for the devices in turn,
  from index \<open>i\<close> on.
\<close>

fun fillSerials :: "nat \<Rightarrow> DeviceInfo list \<Rightarrow> string list \<Rightarrow> string list" where
  "fillSerials i [] serials = serials"
| "fillSerials i (dev # devs) serials = fillSerials (Suc i) devs (serials[i := Serial dev])"

definition ListDeviceSerials ::
  "server \<Rightarrow> (string list option \<times> error option) \<times> conn option" where
  "ListDeviceSerials s =
     (case roundTripSingleResponse s ''host:devices'' of
        (c, Inl err) \<Rightarrow> ((None, Some (wrapClientError err ''ListDeviceSerials'')), c)
      | (c, Inr resp) \<Rightarrow>
          (case parseDeviceList resp parseDeviceShort of
             Inl err \<Rightarrow> ((None, Some (wrapClientError err ''ListDeviceSerials'')), c)
           | Inr devices \<Rightarrow>
               (let serials = replicate (length devices) []
                in ((Some (fillSerials 0 devices serials), None), c))))"

section \<open>Operations that print\<close>

text \<open>
  A call of \<open>fmt.Printf\<close>: the format and its argument, a text or an error (printed
  with \<open>%v\<close>).
\<close>

datatype arg = Text string | Failure error

type_synonym printed = "string \<times> arg"

definition ListForwards ::
  "server \<Rightarrow> (DeviceInfo list option \<times> error option) \<times> conn option \<times> printed list" where
  "ListForwards s =
     (case roundTripSingleResponse s ''host:list-forward'' of
        (c, Inl err) \<Rightarrow> ((None, Some (wrapClientError err ''ListForwards'')), c, [])
      | (c, Inr resp) \<Rightarrow>
          ((None, None), c, [(''forward resp: %s'' @ [newline], Text resp)]))"

definition Connect :: "server \<Rightarrow> string \<Rightarrow> int \<Rightarrow> error option \<times> conn option" where
  "Connect s host port =
     (case roundTripSingleResponse s (''host:connect:'' @ host @ '':'' @ formatInt port) of
        (c, Inl err) \<Rightarrow> (Some (wrapClientError err ''Connect''), c)
      | (c, Inr _) \<Rightarrow> (None, c))"

definition RestartAdbdTcpip ::
  "server \<Rightarrow> string \<Rightarrow> int \<Rightarrow> error option \<times> conn option \<times> printed list" where
  "RestartAdbdTcpip s serial devicePort =
     (case Dial s of
        Inl err \<Rightarrow> (Some err, None, [])
      | Inr conn \<Rightarrow>
          (let req1 = ''host:tport:serial:'' @ serial in
           case SendMessage conn req1 of
             (c1, Some err) \<Rightarrow>
               (Some err, Some (Close c1),
                [(''restartadbd error1: %v'' @ [newline], Failure err)])
           | (c1, None) \<Rightarrow>
               (case ReadStatus c1 req1 of
                  (c2, Inl err) \<Rightarrow>
                    (Some err, Some (Close c2),
                     [(''restartadbd error2: %v'' @ [newline], Failure err)])
                | (c2, Inr _) \<Rightarrow>
                    (let req2 = ''tcpip:'' @ formatInt devicePort in
                     case SendMessage c2 req2 of
                       (c3, Some err) \<Rightarrow>
                         (Some err, Some (Close c3),
                          [(''restartadbd error4: %v'' @ [newline], Failure err)])
                     | (c3, None) \<Rightarrow>
                         (case ReadStatus c3 req2 of
                            (c4, Inl err) \<Rightarrow>
                              (Some err, Some (Close c4),
                               [(''restartadbd error5: %v'' @ [newline], Failure err)])
                          | (c4, Inr _) \<Rightarrow> (None, Some (Close c4), []))))))"

definition ForwardDevice ::
  "server \<Rightarrow> string \<Rightarrow> int \<Rightarrow> int \<Rightarrow> error option \<times> conn option \<times> printed list" where
  "ForwardDevice s serial localPort devicePort =
     (case Dial s of
        Inl err \<Rightarrow> (Some err, None, [])
      | Inr conn \<Rightarrow>
          (let req1 = ''host:tport:serial:'' @ serial in
           case SendMessage conn req1 of
             (c1, Some err) \<Rightarrow>
               (Some err, Some (Close c1), [(''fwd error1: %v'' @ [newline], Failure err)])
           | (c1, None) \<Rightarrow>
               (case ReadStatus c1 req1 of
                  (c2, Inl err) \<Rightarrow>
                    (Some err, Some (Close c2),
                     [(''fwd error2: %v'' @ [newline], Failure err)])
                | (c2, Inr _) \<Rightarrow>
                    (let req2 = ''host:forward:tcp:'' @ formatInt localPort @ '';tcp:''
                                @ formatInt devicePort in
                     case SendMessage c2 req2 of
                       (c3, Some err) \<Rightarrow>
                         (Some err, Some (Close c3),
                          [(''fwd error4: %v'' @ [newline], Failure err)])
                     | (c3, None) \<Rightarrow>
                         (case ReadStatus c3 req2 of
                            (c4, Inl err) \<Rightarrow>
                              (Some err, Some (Close c4),
                               [(''fwd error5: %v'' @ [newline], Failure err)])
                          | (c4, Inr _) \<Rightarrow> (None, Some (Close c4), []))))))"


section \<open>The device watcher\<close>

text \<open>
  Modelled from the spec: the watcher behind \<open>NewDeviceWatcher\<close>, whose code
  (\<open>newDeviceWatcher\<close> and the polling loop) is missing from the sources at hand. Only
  the poll cycle is modelled, as a step on the watcher's state; the background task, its
  start and stop and the sleep between cycles are not.
\<close>

record ChangeEvent =
  added :: "DeviceInfo set"
  removed :: "DeviceInfo set"

text \<open>
  The snapshot is the device list of the last successful poll, empty at first; \<open>seeded\<close>
  says whether a poll has established the baseline.
\<close>

record watcher =
  snapshot :: "DeviceInfo list"
  seeded :: bool

text \<open>The state a snapshot records for a serial.\<close>

definition stateOf :: "DeviceInfo list \<Rightarrow> string \<Rightarrow> DeviceState option" where
  "stateOf snap serial = map_option State (find (\<lambda>d. Serial d = serial) snap)"

text \<open>
  Modelled from the spec: a device of one snapshot is reported against the other when
  its serial is absent there, or present with another connection state (a transition is
  reported as removed and added).
\<close>

definition reported :: "DeviceInfo list \<Rightarrow> DeviceInfo \<Rightarrow> bool" where
  "reported other d =
     (case stateOf other (Serial d) of None \<Rightarrow> True | Some st \<Rightarrow> st \<noteq> State d)"

definition diffSnapshots :: "DeviceInfo list \<Rightarrow> DeviceInfo list \<Rightarrow> ChangeEvent" where
  "diffSnapshots before now =
     \<lparr>added = set (filter (reported before) now),
      removed = set (filter (reported now) before)\<rparr>"

text \<open>
  Modelled from the spec: one poll cycle. A failed poll is transient: it is reported to
  the error sink and changes nothing. The first successful poll seeds the baseline and
  emits nothing; a later one emits one event when there is a difference and none
  otherwise. The result is the new state, the event emitted and the error reported.
\<close>

definition pollCycle ::
  "watcher \<Rightarrow> error + DeviceInfo list \<Rightarrow> watcher \<times> ChangeEvent option \<times> error option" where
  "pollCycle w polled =
     (case polled of
        Inl err \<Rightarrow> (w, None, Some err)
      | Inr now \<Rightarrow>
          if \<not> seeded w then (\<lparr>snapshot = now, seeded = True\<rparr>, None, None)
          else
            (let ev = diffSnapshots (snapshot w) now
             in (\<lparr>snapshot = now, seeded = True\<rparr>,
                 if added ev = {} \<and> removed ev = {} then None else Some ev,
                 None)))"

section \<open>Notions of the specification\<close>

text \<open>
  A hexadecimal numeral is a non-empty text of hexadecimal digits; \<open>hexValue 0\<close> is what
  it denotes.
\<close>

definition isHexNumeral :: "string \<Rightarrow> bool" where
  "isHexNumeral p = (p \<noteq> [] \<and> hexValue 0 p \<noteq> None)"

text \<open>
  A signed hexadecimal numeral is a hexadecimal numeral after at most one sign, \<open>+\<close> or
  \<open>-\<close>; this is what it denotes.
\<close>

definition signedHex :: "string \<Rightarrow> int option" where
  "signedHex p =
     (case p of
        [] \<Rightarrow> None
      | c # cs \<Rightarrow>
          if c = CHR ''+'' then (if cs = [] then None else map_option int (hexValue 0 cs))
          else if c = CHR ''-'' then
            (if cs = [] then None else map_option (\<lambda>v. - int v) (hexValue 0 cs))
          else map_option int (hexValue 0 p))"

definition inInt32 :: "int \<Rightarrow> bool" where
  "inInt32 v = (- (2 ^ 31) \<le> v \<and> v \<le> 2 ^ 31 - 1)"

text \<open>
  A line of a short device list is malformed when it does not consist of two fields.
\<close>

definition malformedShort :: "string \<Rightarrow> bool" where
  "malformedShort line = (length (Fields line) \<noteq> 2)"


text \<open>
  A connection is still open when it was not released and no release is in its log. It
  was closed once, at the end, when it is released and the release is the last event
  of its log and the only one.
\<close>

definition stillOpen :: "conn \<Rightarrow> bool" where
  "stillOpen c = (\<not> closed c \<and> Closed \<notin> set (log c))"

definition closedOnce :: "conn \<Rightarrow> bool" where
  "closedOnce c =
     (closed c \<and> log c \<noteq> [] \<and> last (log c) = Closed \<and> Closed \<notin> set (butlast (log c)))"

text \<open>The bytes of a frame on the wire: the length header, then the message.\<close>

definition frame :: "string \<Rightarrow> string" where
  "frame msg = lengthHeader (length msg) @ msg"

text \<open>
  The two-step transport selection in the words of the specification: on one
  connection, send the selection and read its status, then send the action and read
  its status; the failure of a step ends the protocol with the error of that step.
\<close>

definition twoStepProtocol :: "conn \<Rightarrow> string \<Rightarrow> string \<Rightarrow> conn \<times> error option" where
  "twoStepProtocol c select action =
     (let (c1, sent1) = SendMessage c select in
      if sent1 \<noteq> None then (c1, sent1)
      else
        let (c2, status1) = ReadStatus c1 select in
        case status1 of
          Inl err \<Rightarrow> (c2, Some err)
        | Inr _ \<Rightarrow>
            let (c3, sent2) = SendMessage c2 action in
            if sent2 \<noteq> None then (c3, sent2)
            else
              let (c4, status2) = ReadStatus c3 action in
              (c4, case status2 of Inl err \<Rightarrow> Some err | Inr _ \<Rightarrow> None))"

section \<open>Parsing numbers: what the functions compute\<close>

text \<open>
  \<open>lower\<close> sets bit 5 of the character code; on the letters this maps upper case to
  lower case.
\<close>

lemma lower_alt: "lower c = (if odd (c div 32) then c else c + 32)"
proof -
  have "or c 32 = set_bit 5 c"
    by (simp add: set_bit_eq_or [of 5 c] push_bit_eq_mult)
  then show ?thesis
    by (simp add: lower_def set_bit_eq [of 5 c] bit_iff_odd)
qed

lemma lower_upper: "65 \<le> k \<Longrightarrow> k \<le> 70 \<Longrightarrow> lower k = k + 32"
proof -
  assume "65 \<le> k" "k \<le> 70"
  then have "k div 32 = 2" by linarith
  then show ?thesis by (simp add: lower_alt)
qed

lemma lower_lower: "97 \<le> k \<Longrightarrow> k \<le> 102 \<Longrightarrow> lower k = k"
proof -
  assume "97 \<le> k" "k \<le> 102"
  then have "k div 32 = 3" by linarith
  then show ?thesis by (simp add: lower_alt)
qed

lemma lower_cases: "lower k = k \<or> lower k = k + 32"
  by (simp add: lower_alt)


lemma digitOf_hex:
  "(case digitOf c of None \<Rightarrow> None | Some d \<Rightarrow> if 16 \<le> d then None else Some d) = hexDigitVal c"
proof -
  define k :: nat where "k = of_char c"
  define l where "l = lower k"
  consider "48 \<le> k \<and> k \<le> 57" | "97 \<le> k \<and> k \<le> 102" | "65 \<le> k \<and> k \<le> 70"
    | "\<not> (48 \<le> k \<and> k \<le> 57) \<and> \<not> (97 \<le> k \<and> k \<le> 102) \<and> \<not> (65 \<le> k \<and> k \<le> 70)"
    by blast
  then show ?thesis
  proof cases
    case 1
    then have "\<not> 16 \<le> k - 48" by linarith
    with 1 show ?thesis by (simp add: digitOf_def hexDigitVal_def k_def [symmetric])
  next
    case 2
    then have "lower k = k" by (simp add: lower_lower)
    moreover from 2 have "\<not> 16 \<le> k - 87" "\<not> (48 \<le> k \<and> k \<le> 57)" by linarith+
    ultimately show ?thesis using 2
      by (simp add: digitOf_def hexDigitVal_def k_def [symmetric])
  next
    case 3
    then have "lower k = k + 32" by (simp add: lower_upper)
    moreover from 3 have "\<not> 16 \<le> k - 55" "\<not> (48 \<le> k \<and> k \<le> 57)" "\<not> (97 \<le> k \<and> k \<le> 102)"
      "k + 32 - 87 = k - 55" by linarith+
    ultimately show ?thesis using 3
      by (simp add: digitOf_def hexDigitVal_def k_def [symmetric])
  next
    case 4
    have "l = k \<or> l = k + 32" unfolding l_def by (rule lower_cases)
    with 4 have "\<not> (97 \<le> l \<and> l \<le> 102)" by linarith
    then have big: "97 \<le> l \<and> l \<le> 122 \<Longrightarrow> 16 \<le> l - 97 + 10" by linarith
    from 4 have no: "(48 \<le> k \<and> k \<le> 57) = False" "(97 \<le> k \<and> k \<le> 102) = False"
      "(65 \<le> k \<and> k \<le> 70) = False" by simp_all
    show ?thesis
    proof (cases "97 \<le> l \<and> l \<le> 122")
      case True
      with big have "16 \<le> l - 97 + 10" by simp
      with True show ?thesis
        by (simp add: digitOf_def hexDigitVal_def k_def [symmetric] l_def [symmetric] no)
    next
      case False
      then show ?thesis
        by (simp add: digitOf_def hexDigitVal_def k_def [symmetric] l_def [symmetric] no)
    qed
  qed
qed


lemma parseDigits_step:
  assumes "n \<le> 4294967295"
  shows "parseDigits 16 4294967295 n (c # cs) =
           (case hexDigitVal c of
              None \<Rightarrow> (0, Some ErrSyntax)
            | Some d \<Rightarrow>
                if 4294967295 < 16 * n + d then (4294967295, Some ErrRange)
                else parseDigits 16 4294967295 (16 * n + d) cs)"
proof (cases "digitOf c")
  case None
  with digitOf_hex [of c] have "hexDigitVal c = None" by simp
  with None show ?thesis by simp
next
  case (Some d)
  show ?thesis
  proof (cases "16 \<le> d")
    case True
    with Some digitOf_hex [of c] have "hexDigitVal c = None" by simp
    with Some True show ?thesis by simp
  next
    case False
    with Some digitOf_hex [of c] have h: "hexDigitVal c = Some d" by simp
    from assms have cut: "\<not> maxUint64 div 16 + 1 \<le> n" by (simp add: maxUint64_def)
    from assms False have small: "n * 16 < 2 ^ 64" "n * 16 + d < 2 ^ 64" by simp_all
    then have m: "(n * 16) mod 2 ^ 64 = n * 16" "(n * 16 + d) mod 2 ^ 64 = n * 16 + d"
      by (simp_all only: mod_less)
    from Some False h cut show ?thesis
      by (simp only: parseDigits.simps option.case if_False Let_def m)
         (simp add: mult.commute)
  qed
qed

lemma hexValue_mono: "hexValue n s = Some v \<Longrightarrow> n \<le> v"
proof (induction s arbitrary: n)
  case Nil
  then show ?case by simp
next
  case (Cons c cs)
  then show ?case by (fastforce split: option.splits)
qed

lemma parseDigits_ok:
  "n \<le> 4294967295 \<Longrightarrow> hexValue n s = Some v \<Longrightarrow> v \<le> 4294967295 \<Longrightarrow>
     parseDigits 16 4294967295 n s = (v, None)"
proof (induction s arbitrary: n)
  case Nil
  then show ?case by simp
next
  case (Cons c cs)
  from Cons.prems(2) obtain d where d: "hexDigitVal c = Some d"
    and v: "hexValue (16 * n + d) cs = Some v"
    by (auto split: option.splits)
  from hexValue_mono [OF v] Cons.prems(3) have le: "16 * n + d \<le> 4294967295" by simp
  from Cons.IH [OF le v Cons.prems(3)] d le show ?case
    by (simp only: parseDigits_step [OF Cons.prems(1)] option.case) simp
qed

lemma parseDigits_range:
  "n \<le> 4294967295 \<Longrightarrow> hexValue n s = Some v \<Longrightarrow> 4294967295 < v \<Longrightarrow>
     parseDigits 16 4294967295 n s = (4294967295, Some ErrRange)"
proof (induction s arbitrary: n)
  case Nil
  then show ?case by simp
next
  case (Cons c cs)
  from Cons.prems(2) obtain d where d: "hexDigitVal c = Some d"
    and v: "hexValue (16 * n + d) cs = Some v"
    by (auto split: option.splits)
  show ?case
  proof (cases "4294967295 < 16 * n + d")
    case True
    with d show ?thesis
      by (simp only: parseDigits_step [OF Cons.prems(1)] option.case) simp
  next
    case False
    then have le: "16 * n + d \<le> 4294967295" by simp
    from Cons.IH [OF le v Cons.prems(3)] d False show ?thesis
      by (simp only: parseDigits_step [OF Cons.prems(1)] option.case) simp
  qed
qed

lemma parseDigits_syntax:
  "n \<le> 4294967295 \<Longrightarrow> hexValue n s = None \<Longrightarrow>
     parseDigits 16 4294967295 n s = (0, Some ErrSyntax)
     \<or> parseDigits 16 4294967295 n s = (4294967295, Some ErrRange)"
proof (induction s arbitrary: n)
  case Nil
  then show ?case by simp
next
  case (Cons c cs)
  show ?case
  proof (cases "hexDigitVal c")
    case None
    then show ?thesis
      by (simp only: parseDigits_step [OF Cons.prems(1)] option.case) simp
  next
    case (Some d)
    with Cons.prems(2) have v: "hexValue (16 * n + d) cs = None" by simp
    show ?thesis
    proof (cases "4294967295 < 16 * n + d")
      case True
      with Some show ?thesis
        by (simp only: parseDigits_step [OF Cons.prems(1)] option.case) simp
    next
      case False
      then have le: "16 * n + d \<le> 4294967295" by simp
      from Cons.IH [OF le v] Some False show ?thesis
        by (simp only: parseDigits_step [OF Cons.prems(1)] option.case) simp
    qed
  qed
qed

lemma ParseUint_ok:
  "s \<noteq> [] \<Longrightarrow> hexValue 0 s = Some u \<Longrightarrow> u \<le> 4294967295 \<Longrightarrow>
     ParseUint s 16 32 = (u, None)"
  using parseDigits_ok [of 0 s u] by (simp add: ParseUint_def)

lemma ParseUint_range:
  "s \<noteq> [] \<Longrightarrow> hexValue 0 s = Some u \<Longrightarrow> 4294967295 < u \<Longrightarrow>
     ParseUint s 16 32 = (4294967295, Some (NumError ''ParseUint'' s ErrRange))"
  using parseDigits_range [of 0 s u] by (simp add: ParseUint_def)

lemma ParseUint_bad:
  "s = [] \<or> hexValue 0 s = None \<Longrightarrow>
     ParseUint s 16 32 = (0, Some (NumError ''ParseUint'' s ErrSyntax))
     \<or> ParseUint s 16 32 = (4294967295, Some (NumError ''ParseUint'' s ErrRange))"
  using parseDigits_syntax [of 0 s] by (auto simp add: ParseUint_def)

lemma toInt64_small: "u < 2 ^ 63 \<Longrightarrow> toInt64 u = int u"
proof -
  assume a: "u < 2 ^ 63"
  then have "int u < 2 ^ 63" by (metis of_nat_less_iff of_nat_numeral of_nat_power)
  moreover from this have "int u mod 2 ^ 64 = int u" by simp
  ultimately show ?thesis by (simp add: toInt64_def Let_def)
qed

lemma neg64_small: "0 \<le> n \<Longrightarrow> n \<le> 2 ^ 63 \<Longrightarrow> neg64 n = - n"
proof (cases "n = 0")
  case True
  then show ?thesis by (simp add: neg64_def toInt64_def)
next
  case False
  assume a: "0 \<le> n" "n \<le> 2 ^ 63"
  define x :: int where "x = 2 ^ 64 - n"
  from a False have x: "0 \<le> x" "x < 2 ^ 64" "\<not> x < 2 ^ 63" by (simp_all add: x_def)
  have "(- n) mod 2 ^ 64 = x mod 2 ^ 64" unfolding x_def by (rule minus_mod_self1 [symmetric])
  also from x have "\<dots> = x" by simp
  finally have m: "(- n) mod 2 ^ 64 = x" .
  from x have "int (nat x) mod 2 ^ 64 = x" by simp
  with x m have "neg64 n = x - 2 ^ 64" by (simp add: neg64_def toInt64_def Let_def)
  then show ?thesis by (simp add: x_def)
qed


lemma ParseInt_unsigned:
  assumes "c \<noteq> CHR ''-''" and "s = (if c = CHR ''+'' then cs else c # cs)"
  shows "ParseInt (c # cs) 16 32 =
           (case ParseUint s 16 32 of
              (un, err) \<Rightarrow>
                if err \<noteq> None \<and> map_option Why err \<noteq> Some ErrRange
                then (0, map_option (\<lambda>e. NumError ''ParseInt'' (c # cs) (Why e)) err)
                else if 2147483648 \<le> un
                then (toInt64 2147483647, Some (NumError ''ParseInt'' (c # cs) ErrRange))
                else (toInt64 un, None))"
  using assms by (cases "ParseUint s 16 32") (auto simp add: ParseInt_def Let_def)

lemma ParseInt_negative:
  "ParseInt (CHR ''-'' # cs) 16 32 =
           (case ParseUint cs 16 32 of
              (un, err) \<Rightarrow>
                if err \<noteq> None \<and> map_option Why err \<noteq> Some ErrRange
                then (0, map_option (\<lambda>e. NumError ''ParseInt'' (CHR ''-'' # cs) (Why e)) err)
                else if 2147483648 < un
                then (neg64 (toInt64 2147483648),
                      Some (NumError ''ParseInt'' (CHR ''-'' # cs) ErrRange))
                else (neg64 (toInt64 un), None))"
  by (cases "ParseUint cs 16 32") (auto simp add: ParseInt_def Let_def)

lemma ParseInt_unsigned_ok:
  assumes "c \<noteq> CHR ''-''" and "s = (if c = CHR ''+'' then cs else c # cs)"
    and "s \<noteq> []" and "hexValue 0 s = Some u" and "u < 2147483648"
  shows "ParseInt (c # cs) 16 32 = (int u, None)"
proof -
  from assms(5) have "u \<le> 4294967295" by simp
  then have pu: "ParseUint s 16 32 = (u, None)" by (rule ParseUint_ok [OF assms(3,4)])
  from assms(5) have "u < 2 ^ 63" by simp
  then have t: "toInt64 u = int u" by (rule toInt64_small)
  from assms(5) show ?thesis
    by (simp add: ParseInt_unsigned [OF assms(1,2)] pu t)
qed

lemma ParseInt_negative_ok:
  assumes "cs \<noteq> []" and "hexValue 0 cs = Some u" and "u \<le> 2147483648"
  shows "ParseInt (CHR ''-'' # cs) 16 32 = (- int u, None)"
proof -
  from assms(3) have "u \<le> 4294967295" by simp
  then have pu: "ParseUint cs 16 32 = (u, None)" by (rule ParseUint_ok [OF assms(1,2)])
  from assms(3) have "u < 2 ^ 63" by simp
  then have t: "toInt64 u = int u" by (rule toInt64_small)
  from assms(3) have "int u \<le> 2 ^ 63" by simp
  then have n: "neg64 (int u) = - int u" by (simp add: neg64_small)
  from assms(3) show ?thesis
    by (simp add: ParseInt_negative pu t n)
qed

lemma ParseInt_unsigned_err:
  assumes "c \<noteq> CHR ''-''" and "s = (if c = CHR ''+'' then cs else c # cs)"
    and "s = [] \<or> hexValue 0 s = None \<or> (\<exists>u. hexValue 0 s = Some u \<and> \<not> u < 2147483648)"
  shows "snd (ParseInt (c # cs) 16 32) \<noteq> None"
proof -
  consider (bad) "s = [] \<or> hexValue 0 s = None"
    | (big) u where "s \<noteq> []" "hexValue 0 s = Some u" "4294967295 < u"
    | (mid) u where "s \<noteq> []" "hexValue 0 s = Some u" "u \<le> 4294967295" "\<not> u < 2147483648"
    using assms(3) by fastforce
  then show ?thesis
  proof cases
    case bad
    from ParseUint_bad [OF bad] show ?thesis
    proof
      assume "ParseUint s 16 32 = (0, Some (NumError ''ParseUint'' s ErrSyntax))"
      then show ?thesis by (simp add: ParseInt_unsigned [OF assms(1,2)])
    next
      assume "ParseUint s 16 32 = (4294967295, Some (NumError ''ParseUint'' s ErrRange))"
      then show ?thesis by (simp add: ParseInt_unsigned [OF assms(1,2)])
    qed
  next
    case big
    from ParseUint_range [OF big] show ?thesis
      by (simp add: ParseInt_unsigned [OF assms(1,2)])
  next
    case mid
    from ParseUint_ok [OF mid(1,2,3)] mid(4) show ?thesis
      by (simp add: ParseInt_unsigned [OF assms(1,2)])
  qed
qed

lemma ParseInt_negative_err:
  assumes "cs = [] \<or> hexValue 0 cs = None
           \<or> (\<exists>u. hexValue 0 cs = Some u \<and> \<not> u \<le> 2147483648)"
  shows "snd (ParseInt (CHR ''-'' # cs) 16 32) \<noteq> None"
proof -
  consider (bad) "cs = [] \<or> hexValue 0 cs = None"
    | (big) u where "cs \<noteq> []" "hexValue 0 cs = Some u" "4294967295 < u"
    | (mid) u where "cs \<noteq> []" "hexValue 0 cs = Some u" "u \<le> 4294967295" "\<not> u \<le> 2147483648"
    using assms by fastforce
  then show ?thesis
  proof cases
    case bad
    from ParseUint_bad [OF bad] show ?thesis
    proof
      assume "ParseUint cs 16 32 = (0, Some (NumError ''ParseUint'' cs ErrSyntax))"
      then show ?thesis by (simp add: ParseInt_negative)
    next
      assume "ParseUint cs 16 32 = (4294967295, Some (NumError ''ParseUint'' cs ErrRange))"
      then show ?thesis by (simp add: ParseInt_negative)
    qed
  next
    case big
    from ParseUint_range [OF big] show ?thesis
      by (simp add: ParseInt_negative)
  next
    case mid
    from ParseUint_ok [OF mid(1,2,3)] mid(4) show ?thesis
      by (simp add: ParseInt_negative)
  qed
qed


lemma ParseInt_ok:
  assumes "signedHex p = Some v" and "inInt32 v"
  shows "ParseInt p 16 32 = (v, None)"
proof (cases p)
  case Nil
  with assms show ?thesis by (simp add: signedHex_def)
next
  case (Cons c cs)
  consider (plus) "c = CHR ''+''" | (minus) "c = CHR ''-''"
    | (digit) "c \<noteq> CHR ''+''" "c \<noteq> CHR ''-''" by blast
  then show ?thesis
  proof cases
    case plus
    from assms(1) obtain u where u: "cs \<noteq> []" "hexValue 0 cs = Some u" "v = int u"
      unfolding signedHex_def Cons plus by (auto split: if_splits)
    from assms(2) u(3) have "u < 2147483648" by (simp add: inInt32_def)
    with ParseInt_unsigned_ok [of c cs cs u] u show ?thesis
      unfolding Cons plus by simp
  next
    case minus
    from assms(1) obtain u where u: "cs \<noteq> []" "hexValue 0 cs = Some u" "v = - int u"
      unfolding signedHex_def Cons minus by (auto split: if_splits)
    from assms(2) u(3) have "u \<le> 2147483648" by (simp add: inInt32_def)
    with ParseInt_negative_ok [of cs u] u show ?thesis
      unfolding Cons minus by simp
  next
    case digit
    from assms(1) digit obtain u where u: "hexValue 0 (c # cs) = Some u" "v = int u"
      unfolding signedHex_def Cons by (auto split: if_splits)
    from assms(2) u(2) have "u < 2147483648" by (simp add: inInt32_def)
    with ParseInt_unsigned_ok [of c "c # cs" cs u] u digit show ?thesis
      unfolding Cons by simp
  qed
qed

lemma ParseInt_err:
  assumes "\<forall>v. signedHex p = Some v \<longrightarrow> \<not> inInt32 v"
  shows "snd (ParseInt p 16 32) \<noteq> None"
proof (cases p)
  case Nil
  then show ?thesis by (simp add: ParseInt_def)
next
  case (Cons c cs)
  consider (plus) "c = CHR ''+''" | (minus) "c = CHR ''-''"
    | (digit) "c \<noteq> CHR ''+''" "c \<noteq> CHR ''-''" by blast
  then show ?thesis
  proof cases
    case plus
    from assms have "cs = [] \<or> hexValue 0 cs = None
         \<or> (\<exists>u. hexValue 0 cs = Some u \<and> \<not> u < 2147483648)"
      unfolding signedHex_def Cons plus inInt32_def
      by (cases "hexValue 0 cs") auto
    with ParseInt_unsigned_err [of c cs cs] show ?thesis
      unfolding Cons plus by simp
  next
    case minus
    from assms have "cs = [] \<or> hexValue 0 cs = None
         \<or> (\<exists>u. hexValue 0 cs = Some u \<and> \<not> u \<le> 2147483648)"
      unfolding signedHex_def Cons minus inInt32_def
      by (cases "hexValue 0 cs") auto
    with ParseInt_negative_err [of cs] show ?thesis
      unfolding Cons minus by simp
  next
    case digit
    from assms digit have "hexValue 0 (c # cs) = None
         \<or> (\<exists>u. hexValue 0 (c # cs) = Some u \<and> \<not> u < 2147483648)"
      unfolding signedHex_def Cons inInt32_def
      by (cases "hexValue 0 (c # cs)") auto
    with ParseInt_unsigned_err [of c "c # cs" cs] digit show ?thesis
      unfolding Cons by simp
  qed
qed

section \<open>Evaluating the wire layer\<close>

lemmas wire_defs = roundTripSingleResponse_def Dial_def SendMessageString_def SendMessage_def
  writeAll_def lengthHeader_def hexChar_def ReadStatus_def ReadMessage_def readFull_def
  hexDigitVal_def Close_def

lemmas format_defs = formatInt_def natDigits.simps digitChar_def

section \<open>KillServer\<close>

text \<open>
  Claim C1 says that \<open>KillServer\<close> reads one status tag after sending \<open>host:kill\<close> and
  succeeds only when that status is \<open>OKAY\<close>. The function sends the command and returns:
  against a server that answers \<open>FAIL\<close> with a message it returns success, and the
  answer is still unread when the connection is closed.
\<close>

theorem KillServer_ignores_status_counterexample:
  "KillServer \<lparr>listening = Some \<lparr>replies = ''FAIL0004oops'', accepts = 100\<rparr>\<rparr> =
     (None, Some \<lparr>input = ''FAIL0004oops'', wcap = 87,
                  log = [Wrote ''0009host:kill'', Closed], closed = True\<rparr>)"
  by (simp add: KillServer_def Dial_def SendMessageString_def SendMessage_def writeAll_def
        lengthHeader_def hexChar_def Close_def)

text \<open>
  Claim C1, as amended: after \<open>KillServer\<close> sends \<open>host:kill\<close> on its freshly dialled
  connection it reads nothing from it, neither a status tag nor a payload: the traffic
  on the connection is the one write of the framed command and the close, and what the
  server answers stays unread. It returns success exactly when the whole frame of 13
  bytes was written, whatever the server's status.
\<close>

theorem KillServer_reads_nothing:
  assumes "listening s = Some p"
  shows "\<exists>c. snd (KillServer s) = Some c
           \<and> input c = replies p
           \<and> log c = [Wrote (take (accepts p) ''0009host:kill''), Closed]
           \<and> closed c
           \<and> (fst (KillServer s) = None \<longleftrightarrow> 13 \<le> accepts p)"
  using assms
  by (simp add: KillServer_def Dial_def SendMessageString_def SendMessage_def writeAll_def
        lengthHeader_def hexChar_def Close_def)

theorem KillServer_reads_nothing_witness:
  "\<exists>c. snd (KillServer \<lparr>listening = Some \<lparr>replies = ''FAIL0004oops'', accepts = 100\<rparr>\<rparr>)
          = Some c
       \<and> input c = ''FAIL0004oops''
       \<and> log c = [Wrote ''0009host:kill'', Closed]
       \<and> closed c
       \<and> fst (KillServer \<lparr>listening = Some \<lparr>replies = ''FAIL0004oops'', accepts = 100\<rparr>\<rparr>)
          = None"
  using KillServer_reads_nothing
          [of "\<lparr>listening = Some \<lparr>replies = ''FAIL0004oops'', accepts = 100\<rparr>\<rparr>"
              "\<lparr>replies = ''FAIL0004oops'', accepts = 100\<rparr>"]
  by simp


section \<open>ServerVersion\<close>

lemma hexValue_sign: "hexValue n (CHR ''+'' # cs) = None" "hexValue n (CHR ''-'' # cs) = None"
  by (simp_all add: hexDigitVal_def)

lemma signedHex_unsigned:
  assumes "isHexNumeral p"
  shows "signedHex p = map_option int (hexValue 0 p)"
proof (cases p)
  case Nil
  with assms show ?thesis by (simp add: isHexNumeral_def)
next
  case (Cons c cs)
  with assms hexValue_sign [of 0 cs] have "c \<noteq> CHR ''+''" "c \<noteq> CHR ''-''"
    by (auto simp add: isHexNumeral_def)
  then show ?thesis unfolding Cons signedHex_def by simp
qed

lemma parseServerVersion_ok:
  "signedHex p = Some v \<Longrightarrow> inInt32 v \<Longrightarrow> parseServerVersion p = (v, None)"
  by (simp add: parseServerVersion_def ParseInt_ok)

lemma parseServerVersion_err:
  assumes "\<forall>v. signedHex p = Some v \<longrightarrow> \<not> inInt32 v"
  shows "\<exists>cause. parseServerVersion p =
           (0, Some (Err ParseError None None (''error parsing server version: '' @ p)
                      (Foreign cause)))"
proof -
  from ParseInt_err [OF assms] obtain n e where "ParseInt p 16 32 = (n, Some e)"
    by (cases "ParseInt p 16 32") auto
  then show ?thesis by (simp add: parseServerVersion_def WrapErrorf_def)
qed

lemma ServerVersion_parse_failure:
  assumes "roundTripSingleResponse s ''host:version'' = (c, Inr p)"
    and "\<forall>v. signedHex p = Some v \<longrightarrow> \<not> inInt32 v"
  shows "\<exists>e. fst (ServerVersion s) = (0, Some e) \<and> Code e = ParseError
            \<and> Operation e = Some ''GetServerVersion''"
proof -
  from parseServerVersion_err [OF assms(2)] obtain cause where
    "parseServerVersion p =
       (0, Some (Err ParseError None None (''error parsing server version: '' @ p) (Foreign cause)))"
    by blast
  with assms(1) show ?thesis by (simp add: ServerVersion_def wrapClientError_def)
qed

lemmas version_defs = ServerVersion_def parseServerVersion_def ParseInt_def ParseUint_def
  digitOf_def lower_def maxUint64_def toInt64_def neg64_def WrapErrorf_def wrapClientError_def

text \<open>
  Claim C2 says that every payload that is a hexadecimal numeral yields its value, and
  every payload that is not one yields 0 with a \<open>ParseError\<close>. The numeral \<open>80000000\<close>
  is refused, its value being beyond 32 signed bits; and \<open>-29\<close>, which is not a text of
  hexadecimal digits, is accepted as \<open>-41\<close>.
\<close>

theorem ServerVersion_hex_counterexample:
  "isHexNumeral ''80000000''
   \<and> hexValue 0 ''80000000'' = Some 2147483648
   \<and> fst (ServerVersion \<lparr>listening = Some \<lparr>replies = ''OKAY000880000000'', accepts = 100\<rparr>\<rparr>)
       = (0, Some (Err ParseError (Some ''GetServerVersion'') None
                     ''error parsing server version: 80000000''
                     (Wrapped (Err ParseError None None
                        ''error parsing server version: 80000000''
                        (Foreign (NumError ''ParseInt'' ''80000000'' ErrRange))))))
   \<and> \<not> isHexNumeral ''-29''
   \<and> fst (ServerVersion \<lparr>listening = Some \<lparr>replies = ''OKAY0003-29'', accepts = 100\<rparr>\<rparr>)
       = (- 41, None)"
  by (simp add: isHexNumeral_def version_defs wire_defs)

text \<open>
  Claim C2, as amended: \<open>ServerVersion\<close> parses the payload of a successful round trip
  as a base-16 integer of 32 signed bits with an optional sign. For every payload that
  is a hexadecimal numeral after at most one \<open>+\<close> or \<open>-\<close> and whose value lies between
  \<open>-2^31\<close> and \<open>2^31 - 1\<close> it returns that value and no error (\<open>0029\<close> gives 41); for
  every other payload (\<open>zz\<close>, say) it returns 0 together with a \<open>ParseError\<close> annotated
  with the operation \<open>GetServerVersion\<close>.
\<close>

theorem ServerVersion_parses_int32:
  assumes "roundTripSingleResponse s ''host:version'' = (c, Inr p)"
  shows "(\<forall>v. signedHex p = Some v \<and> inInt32 v \<longrightarrow> fst (ServerVersion s) = (v, None))
       \<and> ((\<forall>v. signedHex p = Some v \<longrightarrow> \<not> inInt32 v) \<longrightarrow>
            (\<exists>e. fst (ServerVersion s) = (0, Some e) \<and> Code e = ParseError
                 \<and> Operation e = Some ''GetServerVersion''))"
proof (intro conjI allI impI)
  fix v assume "signedHex p = Some v \<and> inInt32 v"
  then have "parseServerVersion p = (v, None)" by (simp add: parseServerVersion_ok)
  with assms show "fst (ServerVersion s) = (v, None)" by (simp add: ServerVersion_def)
next
  assume "\<forall>v. signedHex p = Some v \<longrightarrow> \<not> inInt32 v"
  with assms show "\<exists>e. fst (ServerVersion s) = (0, Some e) \<and> Code e = ParseError
                 \<and> Operation e = Some ''GetServerVersion''"
    by (rule ServerVersion_parse_failure)
qed

theorem ServerVersion_parses_int32_witness:
  "fst (ServerVersion \<lparr>listening = Some \<lparr>replies = ''OKAY00040029'', accepts = 100\<rparr>\<rparr>)
     = (41, None)
   \<and> (\<exists>e. fst (ServerVersion \<lparr>listening = Some \<lparr>replies = ''OKAY0002zz'', accepts = 100\<rparr>\<rparr>)
             = (0, Some e)
          \<and> Code e = ParseError \<and> Operation e = Some ''GetServerVersion'')"
proof -
  have a: "roundTripSingleResponse
             \<lparr>listening = Some \<lparr>replies = ''OKAY00040029'', accepts = 100\<rparr>\<rparr> ''host:version''
           = (Some \<lparr>input = [], wcap = 84,
                    log = [Wrote ''000chost:version'', Got ''OKAY'', Got ''0004'',
                           Got ''0029'', Closed],
                    closed = True\<rparr>, Inr ''0029'')"
    by (simp add: wire_defs)
  have b: "roundTripSingleResponse
             \<lparr>listening = Some \<lparr>replies = ''OKAY0002zz'', accepts = 100\<rparr>\<rparr> ''host:version''
           = (Some \<lparr>input = [], wcap = 84,
                    log = [Wrote ''000chost:version'', Got ''OKAY'', Got ''0002'',
                           Got ''zz'', Closed],
                    closed = True\<rparr>, Inr ''zz'')"
    by (simp add: wire_defs)
  have c: "signedHex ''0029'' = Some 41 \<and> inInt32 41"
    by (simp add: signedHex_def hexDigitVal_def inInt32_def)
  have d: "\<forall>v. signedHex ''zz'' = Some v \<longrightarrow> \<not> inInt32 v"
    by (simp add: signedHex_def hexDigitVal_def)
  from ServerVersion_parses_int32 [OF a] c ServerVersion_parses_int32 [OF b] d
  show ?thesis by blast
qed

text \<open>
  Claim C9: the version is parsed into 32 signed bits. For every payload of a
  successful round trip that is a hexadecimal numeral whose value exceeds \<open>2^31 - 1\<close>,
  \<open>ServerVersion\<close> returns 0 together with a \<open>ParseError\<close>, not a wrapped or truncated
  value.
\<close>

theorem ServerVersion_rejects_beyond_int32:
  assumes "roundTripSingleResponse s ''host:version'' = (c, Inr p)"
    and "isHexNumeral p" and "hexValue 0 p = Some v" and "2 ^ 31 - 1 < v"
  shows "\<exists>e. fst (ServerVersion s) = (0, Some e) \<and> Code e = ParseError"
proof -
  from assms(2,3) have "signedHex p = Some (int v)" by (simp add: signedHex_unsigned)
  moreover from assms(4) have "\<not> inInt32 (int v)" by (simp add: inInt32_def)
  ultimately have "\<forall>w. signedHex p = Some w \<longrightarrow> \<not> inInt32 w" by simp
  from ServerVersion_parse_failure [OF assms(1) this] show ?thesis by blast
qed

theorem ServerVersion_rejects_beyond_int32_witness:
  "\<exists>e. fst (ServerVersion \<lparr>listening = Some \<lparr>replies = ''OKAY0009100000000'', accepts = 100\<rparr>\<rparr>)
          = (0, Some e) \<and> Code e = ParseError"
proof -
  have a: "roundTripSingleResponse
             \<lparr>listening = Some \<lparr>replies = ''OKAY0009100000000'', accepts = 100\<rparr>\<rparr>
             ''host:version''
           = (Some \<lparr>input = [], wcap = 84,
                    log = [Wrote ''000chost:version'', Got ''OKAY'', Got ''0009'',
                           Got ''100000000'', Closed],
                    closed = True\<rparr>, Inr ''100000000'')"
    by (simp add: wire_defs)
  have b: "isHexNumeral ''100000000''" "hexValue 0 ''100000000'' = Some 4294967296"
    by (simp_all add: isHexNumeral_def hexDigitVal_def)
  have c: "2 ^ 31 - 1 < (4294967296::nat)" by simp
  from ServerVersion_rejects_beyond_int32 [OF a b c] show ?thesis .
qed


section \<open>The life of a dialled connection\<close>

lemma writeAll_open: "writeAll c bs = (c', r) \<Longrightarrow> stillOpen c \<Longrightarrow> stillOpen c'"
  by (auto simp add: writeAll_def stillOpen_def split: if_splits)

lemma readFull_open: "readFull c n = (c', r) \<Longrightarrow> stillOpen c \<Longrightarrow> stillOpen c'"
  by (auto simp add: readFull_def stillOpen_def split: if_splits)

lemma SendMessage_open: "SendMessage c msg = (c', r) \<Longrightarrow> stillOpen c \<Longrightarrow> stillOpen c'"
  by (auto simp add: SendMessage_def split: if_splits dest: writeAll_open)

lemma ReadMessage_open: "ReadMessage c = (c', r) \<Longrightarrow> stillOpen c \<Longrightarrow> stillOpen c'"
  by (auto simp add: ReadMessage_def split: prod.splits sum.splits option.splits
      dest: readFull_open)

lemma ReadStatus_open: "ReadStatus c req = (c', r) \<Longrightarrow> stillOpen c \<Longrightarrow> stillOpen c'"
  by (auto simp add: ReadStatus_def split: prod.splits sum.splits if_splits
      dest: readFull_open ReadMessage_open)

lemma Close_closedOnce: "stillOpen c \<Longrightarrow> closedOnce (Close c)"
  by (simp add: stillOpen_def closedOnce_def Close_def)

lemma Dial_open: "Dial s = Inr c \<Longrightarrow> stillOpen c"
  by (auto simp add: Dial_def stillOpen_def split: option.splits)

lemma Dial_listening: "listening s = Some p \<Longrightarrow> \<exists>c. Dial s = Inr c \<and> stillOpen c"
  by (simp add: Dial_def stillOpen_def)

lemma twoStep_open:
  "twoStepProtocol c a b = (c', r) \<Longrightarrow> stillOpen c \<Longrightarrow> stillOpen c'"
  by (auto simp add: twoStepProtocol_def Let_def split: prod.splits sum.splits if_splits
      dest: SendMessage_open ReadStatus_open)

lemma ForwardDevice_twoStep:
  assumes "Dial s = Inr c"
  shows "fst (ForwardDevice s serial localPort devicePort) =
           snd (twoStepProtocol c (''host:tport:serial:'' @ serial)
                  (''host:forward:tcp:'' @ formatInt localPort @ '';tcp:''
                   @ formatInt devicePort))
       \<and> fst (snd (ForwardDevice s serial localPort devicePort)) =
           Some (Close (fst (twoStepProtocol c (''host:tport:serial:'' @ serial)
                  (''host:forward:tcp:'' @ formatInt localPort @ '';tcp:''
                   @ formatInt devicePort))))"
  using assms
  by (auto simp add: ForwardDevice_def twoStepProtocol_def Let_def
      split: prod.splits sum.splits option.splits)

lemma RestartAdbdTcpip_twoStep:
  assumes "Dial s = Inr c"
  shows "fst (RestartAdbdTcpip s serial devicePort) =
           snd (twoStepProtocol c (''host:tport:serial:'' @ serial)
                  (''tcpip:'' @ formatInt devicePort))
       \<and> fst (snd (RestartAdbdTcpip s serial devicePort)) =
           Some (Close (fst (twoStepProtocol c (''host:tport:serial:'' @ serial)
                  (''tcpip:'' @ formatInt devicePort))))"
  using assms
  by (auto simp add: RestartAdbdTcpip_def twoStepProtocol_def Let_def
      split: prod.splits sum.splits option.splits)


lemma SendMessage_sent: "SendMessage c msg = (c', None) \<Longrightarrow> log c' = log c @ [Wrote (frame msg)]"
  by (auto simp add: SendMessage_def writeAll_def frame_def split: if_splits)

lemma ReadStatus_okay: "ReadStatus c req = (c', Inr st) \<Longrightarrow> log c' = log c @ [Got ''OKAY'']"
  by (auto simp add: ReadStatus_def readFull_def split: prod.splits sum.splits if_splits)

lemma twoStep_success:
  assumes "twoStepProtocol c a b = (c', None)"
  shows "log c' = log c @ [Wrote (frame a), Got ''OKAY'', Wrote (frame b), Got ''OKAY'']"
proof -
  from assms obtain c1 c2 c3 s1 s2 where
    "SendMessage c a = (c1, None)" "ReadStatus c1 a = (c2, Inr s1)"
    "SendMessage c2 b = (c3, None)" "ReadStatus c3 b = (c', Inr s2)"
    by (auto simp add: twoStepProtocol_def Let_def split: prod.splits sum.splits if_splits)
  then show ?thesis
    by (simp add: SendMessage_sent ReadStatus_okay)
qed

lemma KillServer_closed:
  assumes "Dial s = Inr c"
  shows "\<exists>c'. snd (KillServer s) = Some c' \<and> closedOnce c'"
  using assms Dial_open [OF assms]
  by (auto simp add: KillServer_def SendMessageString_def split: prod.splits option.splits
      dest: SendMessage_open intro: Close_closedOnce)

lemma ForwardDevice_closed:
  assumes "Dial s = Inr c"
  shows "\<exists>c'. fst (snd (ForwardDevice s serial localPort devicePort)) = Some c' \<and> closedOnce c'"
proof -
  obtain c' r where t: "twoStepProtocol c (''host:tport:serial:'' @ serial)
                  (''host:forward:tcp:'' @ formatInt localPort @ '';tcp:''
                   @ formatInt devicePort) = (c', r)" by fastforce
  from twoStep_open [OF t Dial_open [OF assms]] have "closedOnce (Close c')"
    by (rule Close_closedOnce)
  with ForwardDevice_twoStep [OF assms, of serial localPort devicePort] t show ?thesis by simp
qed

lemma RestartAdbdTcpip_closed:
  assumes "Dial s = Inr c"
  shows "\<exists>c'. fst (snd (RestartAdbdTcpip s serial devicePort)) = Some c' \<and> closedOnce c'"
proof -
  obtain c' r where t: "twoStepProtocol c (''host:tport:serial:'' @ serial)
                  (''tcpip:'' @ formatInt devicePort) = (c', r)" by fastforce
  from twoStep_open [OF t Dial_open [OF assms]] have "closedOnce (Close c')"
    by (rule Close_closedOnce)
  with RestartAdbdTcpip_twoStep [OF assms, of serial devicePort] t show ?thesis by simp
qed

text \<open>
  Claim C5: every operation that dials a connection itself (\<open>KillServer\<close>,
  \<open>RestartAdbdTcpip\<close>, \<open>ForwardDevice\<close>) closes it on every exit path. Whenever the dial
  succeeds, whatever the peer answers or accepts and so whether the call succeeds or
  fails, the connection the call leaves behind is released, and the release is the last
  event on it and the only one.
\<close>

theorem dialled_connection_closed_on_every_path:
  assumes "listening s = Some p"
  shows "(\<exists>c. snd (KillServer s) = Some c \<and> closedOnce c)
       \<and> (\<exists>c. fst (snd (RestartAdbdTcpip s serial tcpPort)) = Some c \<and> closedOnce c)
       \<and> (\<exists>c. fst (snd (ForwardDevice s serial localPort devicePort)) = Some c \<and> closedOnce c)"
proof -
  from Dial_listening [OF assms] obtain c where "Dial s = Inr c" by blast
  then show ?thesis
    by (intro conjI KillServer_closed RestartAdbdTcpip_closed ForwardDevice_closed)
qed

theorem dialled_connection_closed_on_every_path_witness:
  "(\<exists>c. snd (KillServer \<lparr>listening = Some \<lparr>replies = ''OKAYFAIL0003bad'', accepts = 30\<rparr>\<rparr>)
          = Some c \<and> closedOnce c)
   \<and> (\<exists>c. fst (snd (RestartAdbdTcpip
                       \<lparr>listening = Some \<lparr>replies = ''OKAYFAIL0003bad'', accepts = 30\<rparr>\<rparr>
                       ''emu'' 5555)) = Some c \<and> closedOnce c)
   \<and> (\<exists>c. fst (snd (ForwardDevice
                       \<lparr>listening = Some \<lparr>replies = ''OKAYFAIL0003bad'', accepts = 30\<rparr>\<rparr>
                       ''emu'' 8080 8080)) = Some c \<and> closedOnce c)"
  using dialled_connection_closed_on_every_path
          [where s = "\<lparr>listening = Some \<lparr>replies = ''OKAYFAIL0003bad'', accepts = 30\<rparr>\<rparr>"
             and p = "\<lparr>replies = ''OKAYFAIL0003bad'', accepts = 30\<rparr>"
             and serial = "''emu''" and tcpPort = 5555 and localPort = 8080
             and devicePort = 8080]
  by simp

section \<open>Transport selection\<close>

lemma Dial_fresh: "Dial s = Inr c \<Longrightarrow> log c = []"
  by (auto simp add: Dial_def split: option.splits)

lemma twoStep_closed_trace:
  assumes "stillOpen c" and "log c = []"
  shows "closedOnce (Close (fst (twoStepProtocol c a b)))
       \<and> (snd (twoStepProtocol c a b) = None \<longrightarrow>
            log (Close (fst (twoStepProtocol c a b))) =
              [Wrote (frame a), Got ''OKAY'', Wrote (frame b), Got ''OKAY'', Closed])"
proof -
  obtain c' r where t: "twoStepProtocol c a b = (c', r)" by fastforce
  from twoStep_open [OF t assms(1)] have "closedOnce (Close c')" by (rule Close_closedOnce)
  moreover have "r = None \<longrightarrow> log (Close c') =
       [Wrote (frame a), Got ''OKAY'', Wrote (frame b), Got ''OKAY'', Closed]"
    using twoStep_success [of c a b c'] t assms(2) by (simp add: Close_def)
  ultimately show ?thesis using t by simp
qed

text \<open>
  Claim C3: \<open>ForwardDevice\<close> and \<open>RestartAdbdTcpip\<close> run the two-step protocol on the
  one connection they dial. Their result is that of the protocol (send
  \<open>host:tport:serial:<serial>\<close>, read its status, send the action, read its status, a
  failing step ending the call with its error) and the connection they leave is the
  protocol's, closed afterwards and not before; on success the traffic is exactly the
  selection, \<open>OKAY\<close>, the action, \<open>OKAY\<close> and the close.
\<close>

theorem two_step_on_one_connection:
  assumes "Dial s = Inr c"
  shows "(let select = ''host:tport:serial:'' @ serial;
              action = ''host:forward:tcp:'' @ formatInt localPort @ '';tcp:''
                       @ formatInt devicePort;
              run = ForwardDevice s serial localPort devicePort
          in fst run = snd (twoStepProtocol c select action)
             \<and> (\<exists>c'. fst (snd run) = Some c'
                   \<and> c' = Close (fst (twoStepProtocol c select action))
                   \<and> closedOnce c'
                   \<and> (fst run = None \<longrightarrow>
                        log c' = [Wrote (frame select), Got ''OKAY'',
                                  Wrote (frame action), Got ''OKAY'', Closed])))
       \<and> (let select = ''host:tport:serial:'' @ serial;
              action = ''tcpip:'' @ formatInt tcpPort;
              run = RestartAdbdTcpip s serial tcpPort
          in fst run = snd (twoStepProtocol c select action)
             \<and> (\<exists>c'. fst (snd run) = Some c'
                   \<and> c' = Close (fst (twoStepProtocol c select action))
                   \<and> closedOnce c'
                   \<and> (fst run = None \<longrightarrow>
                        log c' = [Wrote (frame select), Got ''OKAY'',
                                  Wrote (frame action), Got ''OKAY'', Closed])))"
proof -
  note op = Dial_open [OF assms] and fr = Dial_fresh [OF assms]
  show ?thesis
    unfolding Let_def
    using ForwardDevice_twoStep [OF assms, of serial localPort devicePort]
      RestartAdbdTcpip_twoStep [OF assms, of serial tcpPort]
      twoStep_closed_trace [OF op fr, of "''host:tport:serial:'' @ serial"
        "''host:forward:tcp:'' @ formatInt localPort @ '';tcp:'' @ formatInt devicePort"]
      twoStep_closed_trace [OF op fr, of "''host:tport:serial:'' @ serial"
        "''tcpip:'' @ formatInt tcpPort"]
    by simp
qed

theorem two_step_on_one_connection_witness:
  "fst (ForwardDevice \<lparr>listening = Some \<lparr>replies = ''OKAYOKAY'', accepts = 100\<rparr>\<rparr>
          ''emu'' 8080 8080) = None
   \<and> (\<exists>c'. fst (snd (ForwardDevice \<lparr>listening = Some \<lparr>replies = ''OKAYOKAY'', accepts = 100\<rparr>\<rparr>
                        ''emu'' 8080 8080)) = Some c'
          \<and> closedOnce c'
          \<and> log c' = [Wrote ''0015host:tport:serial:emu'', Got ''OKAY'',
                      Wrote ''001ehost:forward:tcp:8080;tcp:8080'', Got ''OKAY'', Closed])
   \<and> fst (RestartAdbdTcpip \<lparr>listening = Some \<lparr>replies = ''OKAYOKAY'', accepts = 100\<rparr>\<rparr>
          ''emu'' 5555) = None
   \<and> (\<exists>c'. fst (snd (RestartAdbdTcpip
                        \<lparr>listening = Some \<lparr>replies = ''OKAYOKAY'', accepts = 100\<rparr>\<rparr>
                        ''emu'' 5555)) = Some c'
          \<and> closedOnce c'
          \<and> log c' = [Wrote ''0015host:tport:serial:emu'', Got ''OKAY'',
                      Wrote ''000atcpip:5555'', Got ''OKAY'', Closed])"
proof -
  have d: "Dial \<lparr>listening = Some \<lparr>replies = ''OKAYOKAY'', accepts = 100\<rparr>\<rparr>
             = Inr \<lparr>input = ''OKAYOKAY'', wcap = 100, log = [], closed = False\<rparr>"
    by (simp add: Dial_def)
  have f: "fst (ForwardDevice \<lparr>listening = Some \<lparr>replies = ''OKAYOKAY'', accepts = 100\<rparr>\<rparr>
          ''emu'' 8080 8080) = None"
    by (simp add: ForwardDevice_def wire_defs format_defs)
  have r: "fst (RestartAdbdTcpip \<lparr>listening = Some \<lparr>replies = ''OKAYOKAY'', accepts = 100\<rparr>\<rparr>
          ''emu'' 5555) = None"
    by (simp add: RestartAdbdTcpip_def wire_defs format_defs)
  have fr: "frame ''host:tport:serial:emu'' = ''0015host:tport:serial:emu''"
    "frame ''host:forward:tcp:8080;tcp:8080'' = ''001ehost:forward:tcp:8080;tcp:8080''"
    "frame ''tcpip:5555'' = ''000atcpip:5555''"
    by (simp_all add: frame_def lengthHeader_def hexChar_def)
  have fm: "formatInt 8080 = ''8080''" "formatInt 5555 = ''5555''"
    by (simp_all add: format_defs)
  from two_step_on_one_connection [OF d, of "''emu''" 8080 8080 5555] f r
  show ?thesis by (simp add: Let_def fr fm)
qed

end
